theory Spec2Isabelle
  imports Main "HOL-Library.AList"
begin

section \<open>JavaScript values\<close>

text \<open>
  Port counts, port indices and node ordinals are JavaScript numbers that hold integers;
  they are modelled as \<open>int\<close> (rounding of doubles beyond 2^53 and the exponent notation
  of integers from 10^21 on are outside the model).  A coordinate is a \<open>number\<close>: an
  integer, \<open>NaN\<close>, or \<open>Undefined\<close> for a property that was never set (the layout
  collaborator may leave a node without coordinates).
\<close>

datatype number = Num int | NaN | Undefined

text \<open>\<open>a + b\<close> and \<open>a - b\<close> on numbers: anything that is not a number gives \<open>NaN\<close>.\<close>

fun nadd :: "number \<Rightarrow> number \<Rightarrow> number" where
  "nadd (Num a) (Num b) = Num (a + b)"
| "nadd _ _ = NaN"

fun nsub :: "number \<Rightarrow> number \<Rightarrow> number" where
  "nsub (Num a) (Num b) = Num (a - b)"
| "nsub _ _ = NaN"

text \<open>\<open>v || 0\<close>: zero, \<open>NaN\<close> and \<open>undefined\<close> are falsy.\<close>

fun or0 :: "number \<Rightarrow> number" where
  "or0 (Num a) = (if a = 0 then Num 0 else Num a)"
| "or0 _ = Num 0"

text \<open>\<open>i || 0\<close> on an integer.\<close>

definition ior0 :: "int \<Rightarrow> int" where
  "ior0 i = (if i = 0 then 0 else i)"

text \<open>
  \<open>xs[i]\<close>: an array read; \<open>None\<close> is JavaScript's \<open>undefined\<close> (out of range, or a
  negative index).  Reading a property of \<open>undefined\<close> throws a TypeError.
\<close>

definition lookup :: "'a list \<Rightarrow> int \<Rightarrow> 'a option" where
  "lookup xs i = (if 0 \<le> i \<and> i < int (length xs) then Some (xs ! nat i) else None)"

datatype error = TypeError | LayoutError

text \<open>The template literal's conversion of an integer to its decimal string.\<close>

definition digit_char :: "nat \<Rightarrow> char" where
  "digit_char d = ''0123456789'' ! d"

fun digits :: "nat \<Rightarrow> string" where
  "digits n = (if n < 10 then [digit_char n] else digits (n div 10) @ [digit_char (n mod 10)])"

definition show_int :: "int \<Rightarrow> string" where
  "show_int i = (if i < 0 then CHR ''-'' # digits (nat (- i)) else digits (nat i))"

section \<open>graph/utils.ts: getEdgeId\<close>

definition getEdgeId :: "string \<Rightarrow> int \<Rightarrow> string \<Rightarrow> int \<Rightarrow> string" where
  "getEdgeId nodeOutId outputIndex nodeInId inputIndex =
     ''edge_'' @ nodeOutId @ '':'' @ show_int outputIndex @ ''_'' @ nodeInId @ '':''
       @ show_int inputIndex"

section \<open>graph/types.ts: the data model\<close>

text \<open>
  Modelled from the spec: \<open>graph/types.ts\<close> is not among the sources.  The shapes of
  \<open>Position\<close>, \<open>Vector\<close>, \<open>NodeData\<close>, \<open>EdgesNodes\<close>, \<open>EdgesPositions\<close> and \<open>EdgesActive\<close> are
  those of the spec's data model, which are the object literals that \<open>utils.ts\<close> and
  \<open>index.tsx\<close> build and read: \<open>Position\<close> is \<open>{x, y}\<close>, \<open>Vector\<close> is
  \<open>{x0, y0, x1, y1}\<close>.  A field named \<open>id\<close>, and the fields that two shapes share, carry
  the shape's name: \<open>node_id\<close> is \<open>NodeProps.id\<close>, \<open>edge_id\<close> is \<open>EdgeProps.id\<close>, \<open>nd_id\<close>,
  \<open>nd_data\<close>, ... are the fields of \<open>NodeData\<close>.  The payload \<open>data\<close> (of type \<open>any\<close> in the
  source) is a type parameter.
\<close>

record Position =
  x :: number
  y :: number

record Vector =
  x0 :: number
  y0 :: number
  x1 :: number
  y1 :: number

record 'c NodeProps =
  node_id :: string
  position :: Position
  data :: 'c
  inputs :: int
  outputs :: int
  color :: "string option"
  actions :: "bool option"

record EdgeProps =
  edge_id :: string
  sourceNode :: string
  targetNode :: string
  sourceOutput :: int
  targetInput :: int

record 'c NodeData =
  nd_id :: string
  nd_data :: 'c
  nd_inputs :: int
  nd_outputs :: int
  nd_color :: string
  edgesIn :: "string list"
  edgesOut :: "string list"

text \<open>
  One element of \<open>initNodesOffsets\<close>: \<open>{inputs: {offset}[], outputs: {offset}[]}\<close>; a list
  element is the \<open>offset\<close> of one port.
\<close>

record NodeOffsets =
  off_inputs :: "Position list"
  off_outputs :: "Position list"

record EdgeNode =
  outNodeId :: string
  outputIndex :: int
  inNodeId :: string
  inputIndex :: int

text \<open>
  \<open>EdgesNodes\<close>, \<open>EdgesPositions\<close> and \<open>EdgesActive\<close> are plain objects keyed by edge id.  An
  object is the association list of its own properties in insertion order: \<open>obj[k]\<close> is
  \<open>map_of obj k\<close>, \<open>{...obj}\<close> is the list itself and \<open>Object.keys(obj)\<close> is \<open>map fst obj\<close>.
  (JavaScript lists keys that are canonical array indices first; edge ids made by
  \<open>getEdgeId\<close> are never such keys.)
\<close>

type_synonym EdgesNodes = "(string \<times> EdgeNode) list"
type_synonym EdgesPositions = "(string \<times> Vector) list"
type_synonym EdgesActive = "(string \<times> bool) list"

text \<open>
  \<open>obj[k] = v\<close>: the own property \<open>k\<close> is overwritten in place, or appended.  The one key
  for which the assignment creates no own property is \<open>__proto__\<close>, the accessor that every
  plain object inherits from \<open>Object.prototype\<close>: its setter ignores a boolean, and makes an
  object value the prototype of \<open>obj\<close>.  The model keeps the own properties only; what a read
  finds through the prototype chain (under \<open>__proto__\<close>, or under a property name of
  \<open>Object.prototype\<close> such as \<open>constructor\<close>, when there is no own property of that name) is
  outside the model.
\<close>

definition assign :: "string \<Rightarrow> 'v \<Rightarrow> (string \<times> 'v) list \<Rightarrow> (string \<times> 'v) list" where
  "assign k v obj = (if k = ''__proto__'' then obj else AList.update k v obj)"

text \<open>What \<open>console.warn\<close> is given: edge id, sourceNode, sourceExists, targetNode, targetExists.\<close>

datatype warning = MissingNodes string string bool string bool

record 'c Snapshot =
  initNodesPositions :: "Position list"
  initNodesData :: "'c NodeData list"
  initNodesOffsets :: "NodeOffsets list"
  initEdgesNodes :: EdgesNodes
  initEdgesPositions :: EdgesPositions
  initEdgesActives :: EdgesActive

text \<open>
  The layout collaborator (dagre) is a parameter.  It is given the node ids, each set with
  the label \<open>{width: 200, height: 100}\<close>, and the directed pairs set with \<open>setEdge\<close>;
  \<open>dagre.layout\<close> either throws or leaves a graph whose \<open>graph.node(id)\<close> is read as a
  position (with \<open>Undefined\<close> coordinates where the layout set none).
\<close>

type_synonym layout = "string list \<Rightarrow> (string \<times> string) list \<Rightarrow> error + (string \<Rightarrow> Position)"

section \<open>graph/utils.ts: convertToLayeredGraph\<close>

definition nodeData :: "EdgeProps list \<Rightarrow> 'c NodeProps \<Rightarrow> 'c NodeData" where
  "nodeData initialEdges node =
     \<lparr> nd_id = node_id node,
       nd_data = data node,
       nd_inputs = inputs node,
       nd_outputs = outputs node,
       nd_color = (case color node of None \<Rightarrow> ''white''
                   | Some c \<Rightarrow> if c = [] then ''white'' else c),
       edgesIn = map edge_id (filter (\<lambda>edge. targetNode edge = node_id node) initialEdges),
       edgesOut = map edge_id (filter (\<lambda>edge. sourceNode edge = node_id node) initialEdges) \<rparr>"

text \<open>\<open>Array.from({length: n}, (_, index) => f index)\<close>; a negative length is no element.\<close>

definition array_from :: "int \<Rightarrow> (int \<Rightarrow> 'a) \<Rightarrow> 'a list" where
  "array_from n f = map (\<lambda>k. f (int k)) [0..<nat n]"

definition nodeOffsets :: "'c NodeProps \<Rightarrow> NodeOffsets" where
  "nodeOffsets node =
     \<lparr> off_inputs = array_from (inputs node) (\<lambda>index.
         \<lparr> x = x (position node),
           y = nsub (nadd (y (position node)) (Num ((index + 1) * 20)))
                 (Num ((inputs node + 1) * 10)) \<rparr>),
       off_outputs = array_from (outputs node) (\<lambda>index.
         \<lparr> x = nadd (x (position node)) (Num 200),
           y = nsub (nadd (y (position node)) (Num ((index + 1) * 20)))
                 (Num ((outputs node + 1) * 10)) \<rparr>) \<rparr>"

definition edgesNodesStep :: "EdgesNodes \<Rightarrow> EdgeProps \<Rightarrow> EdgesNodes" where
  "edgesNodesStep acc edge =
     assign (edge_id edge)
       \<lparr> outNodeId = sourceNode edge, outputIndex = sourceOutput edge,
         inNodeId = targetNode edge, inputIndex = targetInput edge \<rparr> acc"

text \<open>The reducer of \<open>initEdgesPositions\<close>, with the warnings it has logged so far.\<close>

definition edgesPositionsStep ::
  "'c NodeProps list \<Rightarrow> EdgesPositions \<times> warning list \<Rightarrow> EdgeProps
     \<Rightarrow> EdgesPositions \<times> warning list" where
  "edgesPositionsStep initialNodes accw edge =
     (let sourceN = find (\<lambda>node. node_id node = sourceNode edge) initialNodes;
          targetN = find (\<lambda>node. node_id node = targetNode edge) initialNodes
      in case (sourceN, targetN) of
           (Some sn, Some tn) \<Rightarrow>
             (assign (edge_id edge)
                \<lparr> x0 = nadd (x (position sn)) (Num 200),
                  y0 = nsub (y (position sn)) (Num 10),
                  x1 = x (position tn),
                  y1 = nsub (y (position tn)) (Num 10) \<rparr> (fst accw),
              snd accw)
         | _ \<Rightarrow>
             (fst accw,
              snd accw @ [MissingNodes (edge_id edge) (sourceNode edge) (sourceN \<noteq> None)
                            (targetNode edge) (targetN \<noteq> None)]))"

definition edgesActivesStep :: "EdgesActive \<Rightarrow> EdgeProps \<Rightarrow> EdgesActive" where
  "edgesActivesStep acc edge = assign (edge_id edge) False acc"

definition convertToLayeredGraph ::
  "layout \<Rightarrow> 'c NodeProps list \<Rightarrow> EdgeProps list \<Rightarrow> error + ('c Snapshot \<times> warning list)" where
  "convertToLayeredGraph dagre initialNodes initialEdges =
     (case dagre (map node_id initialNodes)
             (map (\<lambda>edge. (sourceNode edge, targetNode edge)) initialEdges) of
        Inl e \<Rightarrow> Inl e
      | Inr graph_node \<Rightarrow>
          (let posw = foldl (edgesPositionsStep initialNodes) ([], []) initialEdges
           in Inr
             (\<lparr> initNodesPositions = map (\<lambda>node. graph_node (node_id node)) initialNodes,
                initNodesData = map (nodeData initialEdges) initialNodes,
                initNodesOffsets = map nodeOffsets initialNodes,
                initEdgesNodes = foldl edgesNodesStep [] initialEdges,
                initEdgesPositions = fst posw,
                initEdgesActives = foldl edgesActivesStep [] initialEdges \<rparr>,
              snd posw)))"

section \<open>components/index.tsx: the FlowChart engine\<close>

text \<open>
  The host's props.  \<open>edgesRef\<close> is the identity of the \<open>edges\<close> array object (what \<open>===\<close>
  on two arrays compares); \<open>edges\<close> is its content.  The two callbacks are not fields: a
  handler returns the calls it makes, in order.
\<close>

record 'c Props =
  nodes :: "'c NodeProps list"
  edgesRef :: nat
  edges :: "EdgeProps list"

datatype 'c host_call = OnEdgesChange "EdgeProps list" | OnNodesChange "'c NodeProps list"

record NewEdge =
  ne_position :: Vector
  ne_sourceNode :: int
  ne_sourceOutput :: int

text \<open>The signals and stores of one component instance, and \<open>prevEdgesRef\<close>.\<close>

record 'c FlowState =
  edgesNodes :: EdgesNodes
  edgesPositions :: EdgesPositions
  edgesActives :: EdgesActive
  nodesPositions :: "Position list"
  nodesData :: "'c NodeData list"
  nodesOffsets :: "NodeOffsets list"
  clickedDelta :: Position
  newEdge :: "NewEdge option"
  prevEdgesRef :: nat

text \<open>The component's set-up: the first snapshot, and the initial values of the signals.\<close>

definition FlowChart :: "layout \<Rightarrow> 'c Props \<Rightarrow> error + ('c FlowState \<times> warning list)" where
  "FlowChart dagre props =
     (case convertToLayeredGraph dagre (nodes props) (edges props) of
        Inl e \<Rightarrow> Inl e
      | Inr (snap, ws) \<Rightarrow>
          Inr (\<lparr> edgesNodes = initEdgesNodes snap,
                 edgesPositions = initEdgesPositions snap,
                 edgesActives = initEdgesActives snap,
                 nodesPositions = initNodesPositions snap,
                 nodesData = initNodesData snap,
                 nodesOffsets = initNodesOffsets snap,
                 clickedDelta = \<lparr> x = Num 0, y = Num 0 \<rparr>,
                 newEdge = None,
                 prevEdgesRef = edgesRef props \<rparr>, ws))"

text \<open>The body of \<open>createEffect\<close>: the reconciliation run on every change of the props.\<close>

definition createEffect ::
  "layout \<Rightarrow> 'c Props \<Rightarrow> 'c FlowState \<Rightarrow> error + ('c FlowState \<times> warning list)" where
  "createEffect dagre props s =
     (let nextNodesLength = length (nodes props);
          prevNodesLength = length (nodesData s);
          currentEdgesRef = edgesRef props
      in if nextNodesLength \<noteq> prevNodesLength \<or> currentEdgesRef \<noteq> prevEdgesRef s then
           (case convertToLayeredGraph dagre (nodes props) (edges props) of
              Inl e \<Rightarrow> Inl e
            | Inr (snap, ws) \<Rightarrow>
                Inr (s\<lparr> edgesNodes := initEdgesNodes snap,
                        edgesPositions := initEdgesPositions snap,
                        edgesActives := initEdgesActives snap,
                        nodesPositions := initNodesPositions snap,
                        nodesData := initNodesData snap,
                        nodesOffsets := initNodesOffsets snap,
                        prevEdgesRef := currentEdgesRef \<rparr>, ws))
         else Inr (s, []))"

subsection \<open>Node handlers\<close>

text \<open>
  A handler is a function from the state to either the error it throws or the new state
  with the calls made to the host.  What a throwing handler has already written is not
  modelled: no property below reads the state after an error.
\<close>

text \<open>A \<open>forEach\<close>/\<open>map\<close> whose callback may throw: the first error ends the loop.\<close>

fun foldE :: "('a \<Rightarrow> 'b \<Rightarrow> error + 'a) \<Rightarrow> 'a \<Rightarrow> 'b list \<Rightarrow> error + 'a" where
  "foldE f a [] = Inr a"
| "foldE f a (b # bs) = (case f a b of Inl e \<Rightarrow> Inl e | Inr a' \<Rightarrow> foldE f a' bs)"

text \<open>\<open>prev[edgeId]?.c || 0\<close> for a coordinate \<open>c\<close>.\<close>

definition prevCoord :: "EdgesPositions \<Rightarrow> string \<Rightarrow> (Vector \<Rightarrow> number) \<Rightarrow> number" where
  "prevCoord prev edgeId c = (case map_of prev edgeId of None \<Rightarrow> Num 0 | Some v \<Rightarrow> or0 (c v))"

definition mountEdgeIn ::
  "'c FlowState \<Rightarrow> int \<Rightarrow> Position list \<Rightarrow> EdgesPositions \<Rightarrow> string \<Rightarrow> error + EdgesPositions"
  where
  "mountEdgeIn s nodeIndex ins next edgeId =
     (case lookup (nodesPositions s) nodeIndex of
        None \<Rightarrow> Inl TypeError
      | Some p \<Rightarrow>
         (case map_of (edgesNodes s) edgeId of
            None \<Rightarrow> Inl TypeError
          | Some en \<Rightarrow>
             (case lookup ins (inputIndex en) of
                None \<Rightarrow> Inl TypeError
              | Some off \<Rightarrow>
                 Inr (assign edgeId
                   \<lparr> x0 = prevCoord (edgesPositions s) edgeId x0,
                     y0 = prevCoord (edgesPositions s) edgeId y0,
                     x1 = nadd (x p) (x off),
                     y1 = nadd (y p) (y off) \<rparr> next))))"

definition mountEdgeOut ::
  "'c FlowState \<Rightarrow> int \<Rightarrow> Position list \<Rightarrow> EdgesPositions \<Rightarrow> string \<Rightarrow> error + EdgesPositions"
  where
  "mountEdgeOut s nodeIndex outs next edgeId =
     (case lookup (nodesPositions s) nodeIndex of
        None \<Rightarrow> Inl TypeError
      | Some p \<Rightarrow>
         (case map_of (edgesNodes s) edgeId of
            None \<Rightarrow> Inl TypeError
          | Some en \<Rightarrow>
             (case lookup outs (outputIndex en) of
                None \<Rightarrow> Inl TypeError
              | Some off \<Rightarrow>
                 Inr (assign edgeId
                   \<lparr> x0 = nadd (x p) (x off),
                     y0 = nadd (y p) (y off),
                     x1 = prevCoord (edgesPositions s) edgeId x1,
                     y1 = prevCoord (edgesPositions s) edgeId y1 \<rparr> next))))"

definition handleOnNodeMount ::
  "'c FlowState \<Rightarrow> int \<Rightarrow> Position list \<Rightarrow> Position list
     \<Rightarrow> error + ('c FlowState \<times> 'c host_call list)" where
  "handleOnNodeMount s nodeIndex ins outs =
     (case lookup (nodesOffsets s) nodeIndex of
        None \<Rightarrow> Inl TypeError
      | Some _ \<Rightarrow>
         (case lookup (nodesData s) nodeIndex of
            None \<Rightarrow> Inl TypeError
          | Some nd \<Rightarrow>
             (let offs = (nodesOffsets s)[nat nodeIndex :=
                           \<lparr> off_inputs = ins, off_outputs = outs \<rparr>];
                  acts = foldl (\<lambda>next edgeId. assign edgeId True next)
                           (edgesActives s) (edgesIn nd @ edgesOut nd)
              in case foldE (mountEdgeIn s nodeIndex ins) (edgesPositions s) (edgesIn nd) of
                   Inl e \<Rightarrow> Inl e
                 | Inr next1 \<Rightarrow>
                    (case foldE (mountEdgeOut s nodeIndex outs) next1 (edgesOut nd) of
                       Inl e \<Rightarrow> Inl e
                     | Inr next2 \<Rightarrow>
                        Inr (s\<lparr> nodesOffsets := offs, edgesActives := acts,
                                edgesPositions := next2 \<rparr>, [])))))"

definition handleOnNodePress :: "'c FlowState \<Rightarrow> number \<Rightarrow> number \<Rightarrow> 'c FlowState" where
  "handleOnNodePress s deltaX deltaY = s\<lparr> clickedDelta := \<lparr> x = deltaX, y = deltaY \<rparr> \<rparr>"

definition handleOnNodeDelete ::
  "'c Props \<Rightarrow> 'c FlowState \<Rightarrow> string \<Rightarrow> error + ('c FlowState \<times> 'c host_call list)" where
  "handleOnNodeDelete props s nodeId =
     (let newNodes = filter (\<lambda>node. node_id node \<noteq> nodeId) (nodes props);
          newEdges = filter (\<lambda>edge. sourceNode edge \<noteq> nodeId \<and> targetNode edge \<noteq> nodeId)
                       (edges props)
      in Inr (s, [OnEdgesChange newEdges, OnNodesChange newNodes]))"

definition handleOnOutputMouseDown ::
  "'c FlowState \<Rightarrow> int \<Rightarrow> int \<Rightarrow> error + ('c FlowState \<times> 'c host_call list)" where
  "handleOnOutputMouseDown s nodeIndex outputIdx =
     (case lookup (nodesOffsets s) nodeIndex of
        None \<Rightarrow> Inl TypeError
      | Some offs \<Rightarrow>
         (case lookup (off_outputs offs) outputIdx of
            None \<Rightarrow> Inl TypeError
          | Some outputOffset \<Rightarrow>
             (case lookup (nodesPositions s) nodeIndex of
                None \<Rightarrow> Inl TypeError
              | Some nodePosition \<Rightarrow>
                 Inr (s\<lparr> newEdge := Some
                        \<lparr> ne_position =
                            \<lparr> x0 = nadd (x nodePosition) (x outputOffset),
                              y0 = nadd (y nodePosition) (y outputOffset),
                              x1 = nadd (x nodePosition) (x outputOffset),
                              y1 = nadd (y nodePosition) (y outputOffset) \<rparr>,
                          ne_sourceNode = nodeIndex,
                          ne_sourceOutput = outputIdx \<rparr> \<rparr>, []))))"

text \<open>
  The list of active edges reported to the host by \<open>handleOnInputMouseUp\<close>: the keys of
  \<open>edgesActives()\<close> whose flag is true and that \<open>allEdgesNodes\<close> knows (\<open>continue\<close>
  otherwise).
\<close>

definition edgeProps :: "string \<Rightarrow> EdgeNode \<Rightarrow> EdgeProps" where
  "edgeProps k edgeInfo =
     \<lparr> edge_id = k, sourceNode = outNodeId edgeInfo, targetNode = inNodeId edgeInfo,
       sourceOutput = outputIndex edgeInfo, targetInput = inputIndex edgeInfo \<rparr>"

definition activeEdgesCreate :: "EdgesActive \<Rightarrow> EdgesNodes \<Rightarrow> EdgeProps list" where
  "activeEdgesCreate acts allEdgesNodes =
     foldl (\<lambda>activeEdges k.
         if map_of acts k = Some True then
           (case map_of allEdgesNodes k of
              None \<Rightarrow> activeEdges
            | Some edgeInfo \<Rightarrow> activeEdges @ [edgeProps k edgeInfo])
         else activeEdges)
       [] (map fst acts)"

text \<open>
  The creation branch of \<open>handleOnInputMouseUp\<close>.  In
  \<open>{ ...edgesNodes(), [edgeId]: newEdgeNode }\<close> the computed key of the object literal defines
  an own property whatever the key is, so that one is \<open>AList.update\<close>.
\<close>

definition createEdge ::
  "'c FlowState \<Rightarrow> NewEdge \<Rightarrow> int \<Rightarrow> int \<Rightarrow> string \<Rightarrow> string \<Rightarrow> string
     \<Rightarrow> error + ('c FlowState \<times> 'c host_call list)" where
  "createEdge s ne nodeIndex inputIdx sourceNodeId targetNodeId edgeId =
     (let src = ior0 (ne_sourceNode ne); srcOut = ior0 (ne_sourceOutput ne)
      in case lookup (nodesPositions s) src of
           None \<Rightarrow> Inl TypeError
         | Some sp \<Rightarrow>
      (case lookup (nodesOffsets s) src of
           None \<Rightarrow> Inl TypeError
         | Some soffs \<Rightarrow>
      (case lookup (off_outputs soffs) srcOut of
           None \<Rightarrow> Inl TypeError
         | Some so \<Rightarrow>
      (case lookup (nodesPositions s) nodeIndex of
           None \<Rightarrow> Inl TypeError
         | Some tp \<Rightarrow>
      (case lookup (nodesOffsets s) nodeIndex of
           None \<Rightarrow> Inl TypeError
         | Some toffs \<Rightarrow>
      (case lookup (off_inputs toffs) inputIdx of
           None \<Rightarrow> Inl TypeError
         | Some ti \<Rightarrow>
      (let poss = assign edgeId
                    \<lparr> x0 = nadd (x sp) (x so), y0 = nadd (y sp) (y so),
                      x1 = nadd (x tp) (x ti), y1 = nadd (y tp) (y ti) \<rparr> (edgesPositions s);
           acts = assign edgeId True (edgesActives s);
           newEdgeNode = \<lparr> outNodeId = sourceNodeId, outputIndex = srcOut,
                           inNodeId = targetNodeId, inputIndex = inputIdx \<rparr>;
           ens = assign edgeId newEdgeNode (edgesNodes s)
       in case lookup (nodesData s) src of
            None \<Rightarrow> Inl TypeError
          | Some sn \<Rightarrow>
       (let nd1 = (nodesData s)[nat src := sn\<lparr> edgesOut := edgesOut sn @ [edgeId] \<rparr>]
        in case lookup nd1 nodeIndex of
             None \<Rightarrow> Inl TypeError
           | Some tn \<Rightarrow>
        (let nd2 = nd1[nat nodeIndex := tn\<lparr> edgesIn := edgesIn tn @ [edgeId] \<rparr>];
             allEdgesNodes = AList.update edgeId newEdgeNode ens;
             activeEdges = activeEdgesCreate acts allEdgesNodes
         in Inr (s\<lparr> edgesPositions := poss, edgesActives := acts, edgesNodes := ens,
                    nodesData := nd2, newEdge := None \<rparr>,
                 [OnEdgesChange activeEdges]))))))))))"

definition handleOnInputMouseUp ::
  "'c FlowState \<Rightarrow> int \<Rightarrow> int \<Rightarrow> error + ('c FlowState \<times> 'c host_call list)" where
  "handleOnInputMouseUp s nodeIndex inputIdx =
     (if (case newEdge s of None \<Rightarrow> False | Some ne \<Rightarrow> ne_sourceNode ne = nodeIndex) then
        Inr (s\<lparr> newEdge := None \<rparr>, [])
      else
        (case lookup (nodesData s)
                (case newEdge s of None \<Rightarrow> 0 | Some ne \<Rightarrow> ior0 (ne_sourceNode ne)) of
           None \<Rightarrow> Inl TypeError
         | Some sn \<Rightarrow>
            (let outputEdges = edgesOut sn
             in case lookup (nodesData s) nodeIndex of
                  None \<Rightarrow> Inl TypeError
                | Some tn \<Rightarrow>
                   (let inputEdges = edgesIn tn
                    in case newEdge s of
                         None \<Rightarrow> Inr (s, [])
                       | Some ne \<Rightarrow>
                          (let sourceNodeId = nd_id sn;
                               targetNodeId = nd_id tn;
                               edgeId = getEdgeId sourceNodeId (ior0 (ne_sourceOutput ne))
                                          targetNodeId inputIdx;
                               haveEdge = (edgeId \<in> set outputEdges \<or> edgeId \<in> set inputEdges)
                           in if \<not> haveEdge then
                                createEdge s ne nodeIndex inputIdx sourceNodeId targetNodeId edgeId
                              else Inr (s\<lparr> newEdge := None \<rparr>, []))))))"

definition handleOnMouseUp :: "'c FlowState \<Rightarrow> 'c FlowState" where
  "handleOnMouseUp s = s\<lparr> newEdge := None \<rparr>"

definition handleOnMouseMove :: "'c FlowState \<Rightarrow> number \<Rightarrow> number \<Rightarrow> 'c FlowState" where
  "handleOnMouseMove s mx my =
     (case newEdge s of
        None \<Rightarrow> s
      | Some ne \<Rightarrow>
          s\<lparr> newEdge := Some
               \<lparr> ne_position = \<lparr> x0 = or0 (x0 (ne_position ne)), y0 = or0 (y0 (ne_position ne)),
                                 x1 = mx, y1 = my \<rparr>,
                 ne_sourceNode = ior0 (ne_sourceNode ne),
                 ne_sourceOutput = ior0 (ne_sourceOutput ne) \<rparr> \<rparr>)"

subsection \<open>Edge handlers\<close>

text \<open>\<open>Array.prototype.findIndex\<close>: the first index whose element passes, or \<open>-1\<close>.\<close>

fun findIndex :: "('a \<Rightarrow> bool) \<Rightarrow> 'a list \<Rightarrow> int" where
  "findIndex P [] = - 1"
| "findIndex P (a # as) =
     (if P a then 0 else (let r = findIndex P as in if r < 0 then - 1 else r + 1))"

text \<open>
  The loop of \<open>handleOnDeleteEdge\<close> over the keys of \<open>edgesActives()\<close>: it reads
  \<open>edgeInfo.outNodeId\<close> of every active key with no guard.
\<close>

definition activeEdgesDelete :: "EdgesActive \<Rightarrow> EdgesNodes \<Rightarrow> error + EdgeProps list" where
  "activeEdgesDelete acts ens =
     foldE (\<lambda>activeEdges k.
         if map_of acts k = Some True then
           (case map_of ens k of
              None \<Rightarrow> Inl TypeError
            | Some edgeInfo \<Rightarrow> Inr (activeEdges @ [edgeProps k edgeInfo]))
         else Inr activeEdges)
       [] (map fst acts)"

definition handleOnDeleteEdge ::
  "'c FlowState \<Rightarrow> string \<Rightarrow> error + ('c FlowState \<times> 'c host_call list)" where
  "handleOnDeleteEdge s edgeId =
     (case map_of (edgesNodes s) edgeId of
        None \<Rightarrow> Inl TypeError
      | Some en \<Rightarrow>
         (let nodeSourceId = outNodeId en;
              nodeTargetId = inNodeId en;
              nodeSourceIndex = findIndex (\<lambda>node. nd_id node = nodeSourceId) (nodesData s);
              nodeTargetIndex = findIndex (\<lambda>node. nd_id node = nodeTargetId) (nodesData s)
          in case lookup (nodesData s) nodeTargetIndex of
               None \<Rightarrow> Inl TypeError
             | Some tn \<Rightarrow>
                (let nd1 = (nodesData s)[nat nodeTargetIndex :=
                             tn\<lparr> edgesIn := filter (\<lambda>elem. elem \<noteq> edgeId) (edgesIn tn) \<rparr>]
                 in case lookup nd1 nodeSourceIndex of
                      None \<Rightarrow> Inl TypeError
                    | Some sn \<Rightarrow>
                       (let nd2 = nd1[nat nodeSourceIndex :=
                                    sn\<lparr> edgesOut := filter (\<lambda>elem. elem \<noteq> edgeId) (edgesOut sn) \<rparr>];
                            acts = assign edgeId False (edgesActives s)
                        in case activeEdgesDelete acts (edgesNodes s) of
                             Inl e \<Rightarrow> Inl e
                           | Inr activeEdges \<Rightarrow>
                               Inr (s\<lparr> nodesData := nd2, edgesActives := acts \<rparr>,
                                    [OnEdgesChange activeEdges])))))"

section \<open>Example inputs and states\<close>

text \<open>
  The nodes (ids, positions, port counts) and the first edge are those of the repository's
  Dynamic example, the payloads are strings; \<open>edge13\<close> is the edge that example adds; \<open>strayEdge\<close>
  and \<open>ghostEdge\<close> name nodes the host never supplied.  The three layouts stand for the
  collaborator: one that places the nodes in a row, one that throws, one that returns no
  coordinates.
\<close>

definition rowLayout :: layout where
  "rowLayout ids pairs =
     Inr (\<lambda>v. \<lparr> x = Num (250 * findIndex (\<lambda>u. u = v) ids), y = Num 50 \<rparr>)"



definition node1 :: "string NodeProps" where
  "node1 = \<lparr> node_id = ''node-1'', position = \<lparr> x = Num 100, y = Num 100 \<rparr>, data = ''Node 1'',
             inputs = 1, outputs = 2, color = None, actions = None \<rparr>"

definition node2 :: "string NodeProps" where
  "node2 = \<lparr> node_id = ''node-2'', position = \<lparr> x = Num 400, y = Num 50 \<rparr>, data = ''Node 2'',
             inputs = 1, outputs = 1, color = None, actions = None \<rparr>"

definition node3 :: "string NodeProps" where
  "node3 = \<lparr> node_id = ''node-3'', position = \<lparr> x = Num 400, y = Num 200 \<rparr>, data = ''Node 3'',
             inputs = 2, outputs = 2, color = None, actions = None \<rparr>"

definition edge12 :: EdgeProps where
  "edge12 = \<lparr> edge_id = ''edge_node-1:0_node-2:0'', sourceNode = ''node-1'',
              targetNode = ''node-2'', sourceOutput = 0, targetInput = 0 \<rparr>"


definition ghostEdge :: EdgeProps where
  "ghostEdge = \<lparr> edge_id = ''edge_node-8:0_node-9:0'', sourceNode = ''node-8'',
                 targetNode = ''node-9'', sourceOutput = 0, targetInput = 0 \<rparr>"


definition protoEdge :: EdgeProps where
  "protoEdge = \<lparr> edge_id = ''__proto__'', sourceNode = ''node-1'',
                 targetNode = ''node-9'', sourceOutput = 0, targetInput = 0 \<rparr>"

definition demoProps :: "string Props" where
  "demoProps = \<lparr> nodes = [node1, node2, node3], edgesRef = 1, edges = [edge12, ghostEdge] \<rparr>"

text \<open>The engine's state after the set-up on \<open>demoProps\<close> with \<open>rowLayout\<close>.\<close>

definition demoState :: "string FlowState" where
  "demoState =
     \<lparr> edgesNodes =
         [(''edge_node-1:0_node-2:0'',
           \<lparr> outNodeId = ''node-1'', outputIndex = 0, inNodeId = ''node-2'', inputIndex = 0 \<rparr>),
          (''edge_node-8:0_node-9:0'',
           \<lparr> outNodeId = ''node-8'', outputIndex = 0, inNodeId = ''node-9'', inputIndex = 0 \<rparr>)],
       edgesPositions =
         [(''edge_node-1:0_node-2:0'',
           \<lparr> x0 = Num 300, y0 = Num 90, x1 = Num 400, y1 = Num 40 \<rparr>)],
       edgesActives =
         [(''edge_node-1:0_node-2:0'', False), (''edge_node-8:0_node-9:0'', False)],
       nodesPositions =
         [\<lparr> x = Num 0, y = Num 50 \<rparr>, \<lparr> x = Num 250, y = Num 50 \<rparr>, \<lparr> x = Num 500, y = Num 50 \<rparr>],
       nodesData =
         [\<lparr> nd_id = ''node-1'', nd_data = ''Node 1'', nd_inputs = 1, nd_outputs = 2,
            nd_color = ''white'', edgesIn = [], edgesOut = [''edge_node-1:0_node-2:0''] \<rparr>,
          \<lparr> nd_id = ''node-2'', nd_data = ''Node 2'', nd_inputs = 1, nd_outputs = 1,
            nd_color = ''white'', edgesIn = [''edge_node-1:0_node-2:0''], edgesOut = [] \<rparr>,
          \<lparr> nd_id = ''node-3'', nd_data = ''Node 3'', nd_inputs = 2, nd_outputs = 2,
            nd_color = ''white'', edgesIn = [], edgesOut = [] \<rparr>],
       nodesOffsets =
         [\<lparr> off_inputs = [\<lparr> x = Num 100, y = Num 100 \<rparr>],
            off_outputs = [\<lparr> x = Num 300, y = Num 90 \<rparr>, \<lparr> x = Num 300, y = Num 110 \<rparr>] \<rparr>,
          \<lparr> off_inputs = [\<lparr> x = Num 400, y = Num 50 \<rparr>],
            off_outputs = [\<lparr> x = Num 600, y = Num 50 \<rparr>] \<rparr>,
          \<lparr> off_inputs = [\<lparr> x = Num 400, y = Num 190 \<rparr>, \<lparr> x = Num 400, y = Num 210 \<rparr>],
            off_outputs = [\<lparr> x = Num 600, y = Num 190 \<rparr>, \<lparr> x = Num 600, y = Num 210 \<rparr>] \<rparr>],
       clickedDelta = \<lparr> x = Num 0, y = Num 0 \<rparr>,
       newEdge = None,
       prevEdgesRef = 1 \<rparr>"

text \<open>The offsets the renderer measures when it mounts the three nodes.\<close>

definition measured1 :: NodeOffsets where
  "measured1 = \<lparr> off_inputs = [\<lparr> x = Num 0, y = Num 50 \<rparr>],
                 off_outputs = [\<lparr> x = Num 200, y = Num 40 \<rparr>, \<lparr> x = Num 200, y = Num 60 \<rparr>] \<rparr>"

definition measured2 :: NodeOffsets where
  "measured2 = \<lparr> off_inputs = [\<lparr> x = Num 0, y = Num 50 \<rparr>],
                 off_outputs = [\<lparr> x = Num 200, y = Num 50 \<rparr>] \<rparr>"

definition measured3 :: NodeOffsets where
  "measured3 = \<lparr> off_inputs = [\<lparr> x = Num 0, y = Num 40 \<rparr>, \<lparr> x = Num 0, y = Num 60 \<rparr>],
                 off_outputs = [\<lparr> x = Num 200, y = Num 40 \<rparr>, \<lparr> x = Num 200, y = Num 60 \<rparr>] \<rparr>"

text \<open>
  The state once the three nodes are mounted: the edge from node-1 to node-2 is active,
  the edge between the two absent nodes is not.
\<close>

definition demoMounted :: "string FlowState" where
  "demoMounted = demoState
     \<lparr> edgesPositions :=
         [(''edge_node-1:0_node-2:0'',
           \<lparr> x0 = Num 200, y0 = Num 90, x1 = Num 250, y1 = Num 100 \<rparr>)],
       edgesActives :=
         [(''edge_node-1:0_node-2:0'', True), (''edge_node-8:0_node-9:0'', False)],
       nodesOffsets := [measured1, measured2, measured3] \<rparr>"

text \<open>The same state while an edge is drawn from output 0 of the first node.\<close>

definition demoDrawing :: "string FlowState" where
  "demoDrawing = demoMounted
     \<lparr> newEdge := Some \<lparr> ne_position = \<lparr> x0 = Num 200, y0 = Num 90, x1 = Num 200, y1 = Num 90 \<rparr>,
                         ne_sourceNode = 0, ne_sourceOutput = 0 \<rparr> \<rparr>"

text \<open>
  Two handlers run one after the other (the runtime delivers one event at a time); the
  calls to the host are collected in order.
\<close>

definition andThen ::
  "error + ('s \<times> 'e list) \<Rightarrow> ('s \<Rightarrow> error + ('s \<times> 'e list)) \<Rightarrow> error + ('s \<times> 'e list)" where
  "andThen r h =
     (case r of
        Inl e \<Rightarrow> Inl e
      | Inr (s, cs) \<Rightarrow> (case h s of Inl e \<Rightarrow> Inl e | Inr (s', cs') \<Rightarrow> Inr (s', cs @ cs')))"

text \<open>The props of \<open>demoProps\<close> after the host has changed one node's payload only.\<close>

definition editedProps :: "string Props" where
  "editedProps = demoProps \<lparr> nodes := [node1 \<lparr> data := ''Node 1 (edited)'' \<rparr>, node2, node3] \<rparr>"

definition emptyProps :: "string Props" where
  "emptyProps = \<lparr> nodes = [], edgesRef = 0, edges = [] \<rparr>"

definition edge13 :: EdgeProps where
  "edge13 = \<lparr> edge_id = ''edge_node-1:1_node-3:0'', sourceNode = ''node-1'',
              targetNode = ''node-3'', sourceOutput = 1, targetInput = 0 \<rparr>"

text \<open>The mounted state while an edge is drawn from output 1 of the first node.\<close>

definition demoDrawing13 :: "string FlowState" where
  "demoDrawing13 = demoMounted
     \<lparr> newEdge := Some \<lparr> ne_position = \<lparr> x0 = Num 200, y0 = Num 110, x1 = Num 200, y1 = Num 110 \<rparr>,
                         ne_sourceNode = 0, ne_sourceOutput = 1 \<rparr> \<rparr>"

section \<open>Edge identifiers\<close>

declare digits.simps [simp del]

lemma split_first:
  "c \<notin> set u \<Longrightarrow> c \<notin> set u' \<Longrightarrow> u @ c # r = u' @ c # r' \<Longrightarrow> u = u' \<and> r = r'"
proof (induction u arbitrary: u')
  case Nil
  then show ?case by (cases u') auto
next
  case (Cons a u)
  then show ?case by (cases u') auto
qed

lemma split_last:
  assumes "c \<notin> set r" "c \<notin> set r'" "u @ c # r = u' @ c # r'"
  shows "u = u' \<and> r = r'"
proof -
  from assms(3) have "rev (u @ c # r) = rev (u' @ c # r')" by simp
  then have "rev r @ c # rev u = rev r' @ c # rev u'" by simp
  moreover have "c \<notin> set (rev r)" "c \<notin> set (rev r')" using assms(1,2) by simp_all
  ultimately have "rev r = rev r' \<and> rev u = rev u'"
    using split_first [of c "rev r" "rev r'" "rev u" "rev u'"] by blast
  then show ?thesis by simp
qed

lemma digit_char_inj: "a < 10 \<Longrightarrow> b < 10 \<Longrightarrow> digit_char a = digit_char b \<Longrightarrow> a = b"
proof -
  assume a: "a < 10" and b: "b < 10" and e: "digit_char a = digit_char b"
  have d: "distinct ''0123456789''" by simp
  from e have "''0123456789'' ! a = ''0123456789'' ! b" by (simp only: digit_char_def)
  with d a b show "a = b" by (simp add: nth_eq_iff_index_eq)
qed

lemma digit_char_range: "d < 10 \<Longrightarrow> digit_char d \<in> set ''0123456789''"
  unfolding digit_char_def by (rule nth_mem) simp

lemma digits_small: "n < 10 \<Longrightarrow> digits n = [digit_char n]"
  by (subst digits.simps) simp

lemma digits_big: "\<not> n < 10 \<Longrightarrow> digits n = digits (n div 10) @ [digit_char (n mod 10)]"
  by (subst digits.simps) simp

lemma digits_range: "set (digits n) \<subseteq> set ''0123456789''"
proof (induction n rule: digits.induct)
  case (1 n)
  show ?case
  proof (cases "n < 10")
    case True
    then show ?thesis using digit_char_range [of n] by (simp add: digits_small)
  next
    case False
    then have "set (digits (n div 10)) \<subseteq> set ''0123456789''" using 1 by simp
    moreover have "digit_char (n mod 10) \<in> set ''0123456789''" by (rule digit_char_range) simp
    ultimately show ?thesis using False by (simp add: digits_big)
  qed
qed

lemma digits_nonempty: "digits n \<noteq> []"
  by (cases "n < 10") (simp_all add: digits_small digits_big)

lemma digits_inj: "digits n = digits m \<Longrightarrow> n = m"
proof (induction n arbitrary: m rule: digits.induct)
  case (1 n)
  show ?case
  proof (cases "n < 10")
    case n: True
    show ?thesis
    proof (cases "m < 10")
      case True
      with n 1(2) show ?thesis
        by (simp add: digits_small digit_char_inj)
    next
      case False
      with n 1(2) digits_nonempty [of "m div 10"] show ?thesis
        by (simp add: digits_small digits_big)
    qed
  next
    case n: False
    show ?thesis
    proof (cases "m < 10")
      case True
      with n 1(2) digits_nonempty [of "n div 10"] show ?thesis
        by (simp add: digits_small digits_big)
    next
      case False
      with n 1(2) have e: "digits (n div 10) = digits (m div 10)"
        and d: "digit_char (n mod 10) = digit_char (m mod 10)"
        by (simp_all add: digits_big)
      from 1(1) [OF n e] have "n div 10 = m div 10" .
      moreover from d have "n mod 10 = m mod 10" by (intro digit_char_inj) simp_all
      ultimately show ?thesis by (metis div_mult_mod_eq)
    qed
  qed
qed

lemma digits_avoid: "c \<notin> set ''0123456789'' \<Longrightarrow> c \<notin> set (digits n)"
  using digits_range [of n] by (rule contra_subsetD)

lemma digits_no_minus: "digits n \<noteq> CHR ''-'' # r"
proof
  assume "digits n = CHR ''-'' # r"
  then have "CHR ''-'' \<in> set (digits n)" by simp
  moreover have "CHR ''-'' \<notin> set (digits n)" by (rule digits_avoid) simp
  ultimately show False by simp
qed

lemma show_int_avoid:
  assumes "c \<noteq> CHR ''-''" and "c \<notin> set ''0123456789''"
  shows "c \<notin> set (show_int i)"
  using assms digits_avoid [OF assms(2), of "nat i"] digits_avoid [OF assms(2), of "nat (- i)"]
  by (simp only: show_int_def split: if_splits) simp

lemma show_int_inj: "show_int i = show_int j \<Longrightarrow> i = j"
proof -
  assume e: "show_int i = show_int j"
  show "i = j"
  proof (cases "i < 0")
    case i: True
    show ?thesis
    proof (cases "j < 0")
      case True
      with i e have "digits (nat (- i)) = digits (nat (- j))" by (simp add: show_int_def)
      then have "nat (- i) = nat (- j)" by (rule digits_inj)
      with i True show ?thesis by simp
    next
      case False
      with i e digits_no_minus [of "nat j" "digits (nat (- i))"] show ?thesis
        by (simp add: show_int_def)
    qed
  next
    case i: False
    show ?thesis
    proof (cases "j < 0")
      case True
      with i e digits_no_minus [of "nat i" "digits (nat (- j))"] show ?thesis
        by (simp add: show_int_def)
    next
      case False
      with i e have "digits (nat i) = digits (nat j)" by (simp add: show_int_def)
      then have "nat i = nat j" by (rule digits_inj)
      with i False show ?thesis by simp
    qed
  qed
qed

lemma show_int_digit: "0 \<le> i \<Longrightarrow> i < 10 \<Longrightarrow> show_int i = [digit_char (nat i)]"
  by (simp add: show_int_def digits_small)

text \<open>
  C6.  \<open>getEdgeId\<close> is a function of its four arguments, so equal arguments give equal
  ids.  It is not injective on arbitrary node ids: the separators \<open>:\<close> and \<open>_\<close> may occur
  in an id, and two different tuples are then written the same way.
\<close>

theorem getEdgeId_collision:
  "getEdgeId ''x:0_y'' 0 ''z'' 0 = getEdgeId ''x'' 0 ''y:0_z'' 0
     \<and> (''x:0_y'', 0::int, ''z'', 0::int) \<noteq> (''x'', 0, ''y:0_z'', 0)"
  by (simp add: getEdgeId_def show_int_digit digit_char_def)

text \<open>
  C6, as the code has it: when the source node ids contain no colon, two edge ids are equal
  exactly when the four components are equal.
\<close>

theorem getEdgeId_injective:
  assumes "CHR '':'' \<notin> set a" and "CHR '':'' \<notin> set a'"
  shows "getEdgeId a i b j = getEdgeId a' i' b' j' \<longleftrightarrow> a = a' \<and> i = i' \<and> b = b' \<and> j = j'"
proof
  assume eq: "getEdgeId a i b j = getEdgeId a' i' b' j'"
  let ?r = "show_int i @ ''_'' @ b @ '':'' @ show_int j"
  let ?r' = "show_int i' @ ''_'' @ b' @ '':'' @ show_int j'"
  from eq have "a @ CHR '':'' # ?r = a' @ CHR '':'' # ?r'"
    by (simp add: getEdgeId_def)
  from split_first [OF assms(1,2) this] have a: "a = a'" and r: "?r = ?r'" by simp_all
  have u: "CHR ''_'' \<notin> set (show_int k)" for k by (rule show_int_avoid) simp_all
  from r have "show_int i @ CHR ''_'' # (b @ '':'' @ show_int j)
      = show_int i' @ CHR ''_'' # (b' @ '':'' @ show_int j')" by simp
  from split_first [OF u u this] have i: "show_int i = show_int i'"
    and t: "b @ '':'' @ show_int j = b' @ '':'' @ show_int j'" by simp_all
  have c: "CHR '':'' \<notin> set (show_int k)" for k by (rule show_int_avoid) simp_all
  from t have "b @ CHR '':'' # show_int j = b' @ CHR '':'' # show_int j'" by simp
  from split_last [OF c c this] have b: "b = b'" and j: "show_int j = show_int j'" by simp_all
  from a i b j show "a = a' \<and> i = i' \<and> b = b' \<and> j = j'" by (simp add: show_int_inj)
next
  assume "a = a' \<and> i = i' \<and> b = b' \<and> j = j'"
  then show "getEdgeId a i b j = getEdgeId a' i' b' j'" by simp
qed

theorem getEdgeId_injective_witness:
  "CHR '':'' \<notin> set ''n1'' \<and> getEdgeId ''n1'' 1 ''n3'' 0 \<noteq> getEdgeId ''n1'' 0 ''n2'' 0"
  using getEdgeId_injective [of "''n1''" "''n1''" 1 "''n3''" 0 0 "''n2''" 0] by simp

section \<open>The snapshot builder\<close>

lemma map_of_assign:
  "map_of (assign k v obj) k' = (if k' = k \<and> k \<noteq> ''__proto__'' then Some v else map_of obj k')"
  by (simp add: assign_def update_conv')

lemma map_of_edgesActives:
  "map_of (foldl edgesActivesStep acc es) k =
     (if k \<in> edge_id ` set es \<and> k \<noteq> ''__proto__'' then Some False else map_of acc k)"
  by (induction es arbitrary: acc) (auto simp: edgesActivesStep_def map_of_assign)

lemma convert_Inr:
  assumes "convertToLayeredGraph dagre ns es = Inr (snap, ws)"
  obtains g where
    "dagre (map node_id ns) (map (\<lambda>edge. (sourceNode edge, targetNode edge)) es) = Inr g"
    and "initNodesPositions snap = map (\<lambda>node. g (node_id node)) ns"
    and "initNodesData snap = map (nodeData es) ns"
    and "initNodesOffsets snap = map nodeOffsets ns"
    and "initEdgesNodes snap = foldl edgesNodesStep [] es"
    and "initEdgesPositions snap = fst (foldl (edgesPositionsStep ns) ([], []) es)"
    and "initEdgesActives snap = foldl edgesActivesStep [] es"
    and "ws = snd (foldl (edgesPositionsStep ns) ([], []) es)"
  using assms unfolding convertToLayeredGraph_def
  by (auto split: sum.splits simp: Let_def)









text \<open>
  C2.  The claim that every edge starts with \<open>active = true\<close> fails: the builder writes
  \<open>false\<close> under every edge id, as for the Dynamic example's edge; and an edge whose id is
  \<open>__proto__\<close> gets no flag at all, because that assignment is ignored.
\<close>

theorem initEdgesActives_demo:
  "map_sum id (\<lambda>r. initEdgesActives (fst r))
     (convertToLayeredGraph rowLayout [node1, node2, node3] [edge12])
   = Inr [(''edge_node-1:0_node-2:0'', False)]
   \<and> map_sum id (\<lambda>r. initEdgesActives (fst r))
     (convertToLayeredGraph rowLayout [node1, node2, node3] [protoEdge])
   = Inr []"
  by (simp add: convertToLayeredGraph_def rowLayout_def edgesActivesStep_def assign_def
      edge12_def protoEdge_def Let_def)

text \<open>
  C2, as the code has it: whenever \<open>convertToLayeredGraph\<close> returns a snapshot, the active flag
  of every edge of the input whose id is not \<open>__proto__\<close> is \<open>false\<close>; the map has no own
  property \<open>__proto__\<close>, and no own property of the map is \<open>true\<close>.  (An edge becomes active
  when one of its nodes is mounted, see \<open>handleOnNodeMount\<close>.)
\<close>

theorem initEdgesActives_all_false:
  assumes "convertToLayeredGraph dagre ns es = Inr (snap, ws)"
  shows "(\<forall>edge \<in> set es. edge_id edge \<noteq> ''__proto__''
            \<longrightarrow> map_of (initEdgesActives snap) (edge_id edge) = Some False)
         \<and> map_of (initEdgesActives snap) ''__proto__'' = None
         \<and> (\<forall>k. map_of (initEdgesActives snap) k \<noteq> Some True)"
proof -
  from assms have "initEdgesActives snap = foldl edgesActivesStep [] es"
    by (rule convert_Inr)
  then show ?thesis by (simp add: map_of_edgesActives)
qed

theorem initEdgesActives_all_false_witness:
  "edge12 \<in> set [edge12, protoEdge] \<and> edge_id edge12 \<noteq> ''__proto__''
   \<and> (\<exists>snap ws. convertToLayeredGraph rowLayout [node1, node2, node3] [edge12, protoEdge]
                   = Inr (snap, ws)
        \<and> map_of (initEdgesActives snap) ''edge_node-1:0_node-2:0'' = Some False
        \<and> map_of (initEdgesActives snap) ''__proto__'' = None)"
proof -
  obtain snap ws where
    c: "convertToLayeredGraph rowLayout [node1, node2, node3] [edge12, protoEdge] = Inr (snap, ws)"
    by (simp add: convertToLayeredGraph_def rowLayout_def Let_def)
  have i: "edge_id edge12 = ''edge_node-1:0_node-2:0''" by (simp add: edge12_def)
  from initEdgesActives_all_false [OF c]
  have "map_of (initEdgesActives snap) (edge_id edge12) = Some False"
    and "map_of (initEdgesActives snap) ''__proto__'' = None"
    by (simp_all add: i)
  with c show ?thesis by (auto simp: i)
qed

text \<open>
  C4.  The provisional offsets are not offsets from the node's corner: the builder adds the
  node's host-supplied position to both coordinates.  For the first node of the Dynamic
  example, at (100, 100) with one input and two outputs, the claim gives the input offset
  (0, 0) and the output offsets (200, -10) and (200, 10); the code computes:
\<close>

theorem provisional_offsets_include_position:
  "map_sum id (\<lambda>r. initNodesOffsets (fst r)) (convertToLayeredGraph rowLayout [node1] [])
     = Inr [\<lparr> off_inputs = [\<lparr> x = Num 100, y = Num 100 \<rparr>],
              off_outputs = [\<lparr> x = Num 300, y = Num 90 \<rparr>, \<lparr> x = Num 300, y = Num 110 \<rparr>] \<rparr>]"
  by (simp add: convertToLayeredGraph_def rowLayout_def nodeOffsets_def array_from_def node1_def
      upt_rec)

lemma nodeOffsets_inputs:
  "0 \<le> k \<Longrightarrow> k < inputs node \<Longrightarrow>
     lookup (off_inputs (nodeOffsets node)) k =
       Some \<lparr> x = x (position node),
              y = nsub (nadd (y (position node)) (Num ((k + 1) * 20))) (Num ((inputs node + 1) * 10)) \<rparr>"
  by (simp add: nodeOffsets_def array_from_def lookup_def)

lemma nodeOffsets_outputs:
  "0 \<le> k \<Longrightarrow> k < outputs node \<Longrightarrow>
     lookup (off_outputs (nodeOffsets node)) k =
       Some \<lparr> x = nadd (x (position node)) (Num 200),
              y = nsub (nadd (y (position node)) (Num ((k + 1) * 20))) (Num ((outputs node + 1) * 10)) \<rparr>"
  by (simp add: nodeOffsets_def array_from_def lookup_def)





text \<open>
  A dangling edge whose id is \<open>__proto__\<close> leaves no own property in the
  edge-endpoint-reference map (the assignment goes to the inherited accessor).
\<close>

lemma protoEdge_no_own_property:
  "map_sum id (\<lambda>r. initEdgesNodes (fst r))
        (convertToLayeredGraph rowLayout [node1, node2] [protoEdge])
      = Inr []"
  by (simp add: convertToLayeredGraph_def rowLayout_def edgesNodesStep_def assign_def
      protoEdge_def Let_def)



section \<open>The engine\<close>

lemma demoState_reached: "FlowChart rowLayout demoProps =
    Inr (demoState, [MissingNodes ''edge_node-8:0_node-9:0'' ''node-8'' False ''node-9'' False])"
  by (simp add: FlowChart_def convertToLayeredGraph_def rowLayout_def demoProps_def demoState_def
      node1_def node2_def node3_def edge12_def ghostEdge_def nodeData_def nodeOffsets_def
      array_from_def upt_rec edgesNodesStep_def edgesPositionsStep_def edgesActivesStep_def
      assign_def Let_def)

lemma demoMounted_reached:
  "andThen (andThen
      (handleOnNodeMount demoState 0 (off_inputs measured1) (off_outputs measured1))
      (\<lambda>s. handleOnNodeMount s 1 (off_inputs measured2) (off_outputs measured2)))
      (\<lambda>s. handleOnNodeMount s 2 (off_inputs measured3) (off_outputs measured3))
     = Inr (demoMounted, [])"
  by (simp add: andThen_def handleOnNodeMount_def demoState_def demoMounted_def measured1_def
      measured2_def measured3_def lookup_def mountEdgeOut_def mountEdgeIn_def prevCoord_def
      assign_def Let_def)

lemma demoDrawing_reached: "handleOnOutputMouseDown demoMounted 0 0 = Inr (demoDrawing, [])"
  by (simp add: handleOnOutputMouseDown_def demoDrawing_def demoMounted_def demoState_def
      measured1_def lookup_def)

lemma demoDrawing13_reached: "handleOnOutputMouseDown demoMounted 0 1 = Inr (demoDrawing13, [])"
  by (simp add: handleOnOutputMouseDown_def demoDrawing13_def demoMounted_def demoState_def
      measured1_def lookup_def)

lemma ior0_id: "ior0 i = i"
  by (simp add: ior0_def)

text \<open>
  C3.  When the host's node count equals the engine's node count and the edges array is the
  one last reconciled (the same reference), the reconciliation changes nothing: the state,
  with every node position and every edge's endpoint coordinates, is returned as it was,
  whatever the nodes' payloads are now.
\<close>

theorem createEffect_noop:
  assumes "length (nodes props) = length (nodesData s)"
    and "edgesRef props = prevEdgesRef s"
  shows "createEffect dagre props s = Inr (s, [])"
  using assms by (simp add: createEffect_def)

theorem createEffect_noop_witness:
  "length (nodes editedProps) = length (nodesData demoMounted)
   \<and> edgesRef editedProps = prevEdgesRef demoMounted
   \<and> nodes editedProps \<noteq> nodes demoProps
   \<and> createEffect rowLayout editedProps demoMounted = Inr (demoMounted, [])"
proof -
  have l: "length (nodes editedProps) = length (nodesData demoMounted)"
    by (simp add: editedProps_def demoMounted_def demoState_def)
  have r: "edgesRef editedProps = prevEdgesRef demoMounted"
    by (simp add: editedProps_def demoProps_def demoMounted_def demoState_def)
  have n: "nodes editedProps \<noteq> nodes demoProps"
    by (simp add: editedProps_def demoProps_def node1_def)
  from createEffect_noop [OF l r, of rowLayout] l r n show ?thesis by simp
qed

text \<open>
  C9.  \<open>handleOnNodeDelete\<close> makes exactly two calls, \<open>onEdgesChange\<close> first and
  \<open>onNodesChange\<close> second: the edge list holds no edge of the host's list whose source or
  target is the deleted node, and the node list holds no node with the deleted id.
\<close>

theorem nodeDelete_cascade:
  "\<exists>es ns. handleOnNodeDelete props s nodeId = Inr (s, [OnEdgesChange es, OnNodesChange ns])
     \<and> es = filter (\<lambda>edge. sourceNode edge \<noteq> nodeId \<and> targetNode edge \<noteq> nodeId) (edges props)
     \<and> ns = filter (\<lambda>node. node_id node \<noteq> nodeId) (nodes props)
     \<and> (\<forall>edge \<in> set (edges props).
           sourceNode edge = nodeId \<or> targetNode edge = nodeId \<longrightarrow> edge \<notin> set es)
     \<and> (\<forall>node \<in> set ns. node_id node \<noteq> nodeId)"
  by (simp add: handleOnNodeDelete_def)

theorem nodeDelete_cascade_witness:
  "edge12 \<in> set (edges demoProps) \<and> targetNode edge12 = ''node-2''
   \<and> handleOnNodeDelete demoProps demoMounted ''node-2''
       = Inr (demoMounted, [OnEdgesChange [ghostEdge], OnNodesChange [node1, node3]])
   \<and> edge12 \<notin> set [ghostEdge] \<and> node2 \<notin> set [node1, node3]"
proof -
  from nodeDelete_cascade [of demoProps demoMounted "''node-2''"]
  have "handleOnNodeDelete demoProps demoMounted ''node-2''
       = Inr (demoMounted, [OnEdgesChange [ghostEdge], OnNodesChange [node1, node3]])"
    by (simp add: demoProps_def node1_def node2_def node3_def edge12_def ghostEdge_def)
  then show ?thesis
    by (simp add: demoProps_def node1_def node2_def node3_def edge12_def ghostEdge_def)
qed

text \<open>
  C10.  A non-empty node list and no pending edge do not make the release a no-op: the
  handler also reads \<open>nodesData[nodeIndex].edgesIn\<close> before the guard on the pending edge.
  In the mounted demo state, with three nodes, a release with node ordinal 7 throws.
\<close>

theorem inputMouseUp_idle_out_of_range:
  "newEdge demoMounted = None \<and> length (nodesData demoMounted) = 3
   \<and> handleOnInputMouseUp demoMounted 7 0 = Inl TypeError"
  by (simp add: handleOnInputMouseUp_def demoMounted_def demoState_def lookup_def)

text \<open>
  C10, as the code has it.  With no pending edge, a release on an input port of a node
  whose ordinal is within the node list (which is then not empty) leaves the whole state
  as it is and calls nothing; with a node ordinal outside the list, and so with an empty
  node list for every ordinal, the handler throws a TypeError, because it reads
  \<open>nodesData[0].edgesOut\<close> and \<open>nodesData[nodeIndex].edgesIn\<close> before the guard on the
  pending edge.
\<close>

theorem inputMouseUp_idle:
  assumes "newEdge s = None"
  shows "(0 \<le> nodeIndex \<and> nodeIndex < int (length (nodesData s))
            \<longrightarrow> nodesData s \<noteq> [] \<and> handleOnInputMouseUp s nodeIndex inputIdx = Inr (s, []))
       \<and> (nodeIndex < 0 \<or> int (length (nodesData s)) \<le> nodeIndex
            \<longrightarrow> handleOnInputMouseUp s nodeIndex inputIdx = Inl TypeError)
       \<and> (nodesData s = [] \<longrightarrow> handleOnInputMouseUp s nodeIndex inputIdx = Inl TypeError)"
  using assms by (auto simp: handleOnInputMouseUp_def lookup_def Let_def)

theorem inputMouseUp_idle_witness:
  "newEdge demoMounted = None \<and> nodesData demoMounted \<noteq> []
   \<and> handleOnInputMouseUp demoMounted 1 0 = Inr (demoMounted, [])
   \<and> handleOnInputMouseUp demoMounted (- 1) 0 = Inl TypeError
   \<and> handleOnInputMouseUp demoMounted 3 0 = Inl TypeError
   \<and> (\<exists>s. FlowChart rowLayout emptyProps = Inr (s, []) \<and> newEdge s = None \<and> nodesData s = []
        \<and> handleOnInputMouseUp s 0 0 = Inl TypeError)"
proof -
  have n: "newEdge demoMounted = None" by (simp add: demoMounted_def demoState_def)
  have d: "nodesData demoMounted \<noteq> []" "int (length (nodesData demoMounted)) = 3"
    by (simp_all add: demoMounted_def demoState_def)
  obtain s where f: "FlowChart rowLayout emptyProps = Inr (s, [])" and e: "newEdge s = None"
    and m: "nodesData s = []"
    by (simp add: FlowChart_def convertToLayeredGraph_def rowLayout_def emptyProps_def)
  from inputMouseUp_idle [OF n, of 1 0] inputMouseUp_idle [OF n, of "- 1" 0]
    inputMouseUp_idle [OF n, of 3 0] inputMouseUp_idle [OF e, of 0 0] n d f e m
  show ?thesis by auto
qed

text \<open>
  C1.  A release that names an edge already present does not remove it.  In the mounted
  demo state (reached by \<open>demoState_reached\<close> and \<open>demoMounted_reached\<close>) an edge is drawn from
  output 0 of node-1 and released on input 0 of node-2, where that edge exists and is
  active: the handler returns the state as it was before the drag, the edge still in both
  adjacency lists and still active, and calls nothing.
\<close>

theorem toggle_counterexample:
  "handleOnOutputMouseDown demoMounted 0 0 = Inr (demoDrawing, [])
   \<and> getEdgeId ''node-1'' 0 ''node-2'' 0 = ''edge_node-1:0_node-2:0''
   \<and> edgesOut (nodesData demoDrawing ! 0) = [''edge_node-1:0_node-2:0'']
   \<and> edgesActives demoDrawing
        = [(''edge_node-1:0_node-2:0'', True), (''edge_node-8:0_node-9:0'', False)]
   \<and> handleOnInputMouseUp demoDrawing 1 0 = Inr (demoMounted, [])
   \<and> edgesOut (nodesData demoMounted ! 0) = [''edge_node-1:0_node-2:0'']
   \<and> edgesIn (nodesData demoMounted ! 1) = [''edge_node-1:0_node-2:0'']
   \<and> edgesActives demoMounted
        = [(''edge_node-1:0_node-2:0'', True), (''edge_node-8:0_node-9:0'', False)]"
proof -
  have g: "getEdgeId ''node-1'' 0 ''node-2'' 0 = ''edge_node-1:0_node-2:0''"
    by (simp add: getEdgeId_def show_int_digit digit_char_def)
  have u: "handleOnInputMouseUp demoDrawing 1 0 = Inr (demoMounted, [])"
    by (simp add: handleOnInputMouseUp_def demoDrawing_def demoMounted_def demoState_def
        lookup_def ior0_def g Let_def)
  show ?thesis
    by (simp add: demoDrawing_reached g u) (simp add: demoDrawing_def demoMounted_def demoState_def)
qed

text \<open>
  C1, as the code has it: when the release names an edge id already in the source node's
  \<open>edgesOut\<close> or the target node's \<open>edgesIn\<close>, the handler creates no duplicate and removes
  nothing; it only clears the pending edge, and makes no call to the host.
\<close>

theorem inputMouseUp_existing_edge:
  assumes "newEdge s = Some ne"
    and "lookup (nodesData s) (ne_sourceNode ne) = Some sn"
    and "lookup (nodesData s) nodeIndex = Some tn"
    and "getEdgeId (nd_id sn) (ne_sourceOutput ne) (nd_id tn) inputIdx
           \<in> set (edgesOut sn) \<union> set (edgesIn tn)"
  shows "handleOnInputMouseUp s nodeIndex inputIdx = Inr (s\<lparr> newEdge := None \<rparr>, [])"
  using assms by (auto simp: handleOnInputMouseUp_def ior0_id Let_def)

theorem inputMouseUp_existing_edge_witness:
  "newEdge demoDrawing = Some \<lparr> ne_position = \<lparr> x0 = Num 200, y0 = Num 90, x1 = Num 200, y1 = Num 90 \<rparr>,
                                 ne_sourceNode = 0, ne_sourceOutput = 0 \<rparr>
   \<and> getEdgeId ''node-1'' 0 ''node-2'' 0 \<in> set (edgesOut (nodesData demoDrawing ! 0))
   \<and> handleOnInputMouseUp demoDrawing 1 0 = Inr (demoDrawing\<lparr> newEdge := None \<rparr>, [])"
proof -
  let ?ne = "\<lparr> ne_position = \<lparr> x0 = Num 200, y0 = Num 90, x1 = Num 200, y1 = Num 90 \<rparr>,
               ne_sourceNode = 0, ne_sourceOutput = 0 \<rparr>"
  let ?sn = "\<lparr> nd_id = ''node-1'', nd_data = ''Node 1'', nd_inputs = 1, nd_outputs = 2,
            nd_color = ''white'', edgesIn = [], edgesOut = [''edge_node-1:0_node-2:0''] \<rparr>"
  let ?tn = "\<lparr> nd_id = ''node-2'', nd_data = ''Node 2'', nd_inputs = 1, nd_outputs = 1,
            nd_color = ''white'', edgesIn = [''edge_node-1:0_node-2:0''], edgesOut = [] \<rparr>"
  have g: "getEdgeId ''node-1'' 0 ''node-2'' 0 = ''edge_node-1:0_node-2:0''"
    by (simp add: getEdgeId_def show_int_digit digit_char_def)
  have n: "newEdge demoDrawing = Some ?ne"
    by (simp add: demoDrawing_def)
  have a: "lookup (nodesData demoDrawing) (ne_sourceNode ?ne) = Some ?sn"
    by (simp add: demoDrawing_def demoMounted_def demoState_def lookup_def)
  have b: "lookup (nodesData demoDrawing) 1 = Some ?tn"
    by (simp add: demoDrawing_def demoMounted_def demoState_def lookup_def)
  have m: "getEdgeId (nd_id ?sn) (ne_sourceOutput ?ne) (nd_id ?tn) 0
           \<in> set (edgesOut ?sn) \<union> set (edgesIn ?tn)"
    by (simp add: g)
  have o: "getEdgeId ''node-1'' 0 ''node-2'' 0 \<in> set (edgesOut (nodesData demoDrawing ! 0))"
    by (simp add: g demoDrawing_def demoMounted_def demoState_def)
  from inputMouseUp_existing_edge [OF n a b m] n o show ?thesis by simp
qed

lemma edge_id_edgeProps: "edge_id (edgeProps k info) = k"
  by (simp add: edgeProps_def)

lemma activeEdgesCreate_fold:
  "edge \<in> set (foldl (\<lambda>activeEdges k.
         if map_of acts k = Some True then
           (case map_of allEdgesNodes k of
              None \<Rightarrow> activeEdges
            | Some edgeInfo \<Rightarrow> activeEdges @ [edgeProps k edgeInfo])
         else activeEdges) acc ks)
   \<Longrightarrow> edge \<in> set acc \<or> map_of acts (edge_id edge) = Some True"
proof (induction ks arbitrary: acc)
  case Nil
  then show ?case by simp
next
  case (Cons k ks)
  from Cons.IH [OF Cons.prems [simplified foldl_Cons]]
  show ?case by (auto simp: edge_id_edgeProps split: if_splits option.splits)
qed

lemma activeEdgesCreate_active:
  "edge \<in> set (activeEdgesCreate acts allEdgesNodes) \<Longrightarrow> map_of acts (edge_id edge) = Some True"
  unfolding activeEdgesCreate_def by (drule activeEdgesCreate_fold) simp

lemma activeEdgesDelete_fold:
  "foldE (\<lambda>activeEdges k.
         if map_of acts k = Some True then
           (case map_of ens k of
              None \<Rightarrow> Inl TypeError
            | Some edgeInfo \<Rightarrow> Inr (activeEdges @ [edgeProps k edgeInfo]))
         else Inr activeEdges) acc ks = Inr es
   \<Longrightarrow> edge \<in> set es \<Longrightarrow> edge \<in> set acc \<or> map_of acts (edge_id edge) = Some True"
proof (induction ks arbitrary: acc)
  case Nil
  then show ?case by simp
next
  case (Cons k ks)
  show ?case
  proof (cases "map_of acts k = Some True")
    case False
    with Cons.prems have "foldE (\<lambda>activeEdges k.
         if map_of acts k = Some True then
           (case map_of ens k of
              None \<Rightarrow> Inl TypeError
            | Some edgeInfo \<Rightarrow> Inr (activeEdges @ [edgeProps k edgeInfo]))
         else Inr activeEdges) acc ks = Inr es" by simp
    from Cons.IH [OF this Cons.prems(2)] show ?thesis .
  next
    case True
    show ?thesis
    proof (cases "map_of ens k")
      case None
      with True Cons.prems show ?thesis by simp
    next
      case (Some info)
      with True Cons.prems have "foldE (\<lambda>activeEdges k.
         if map_of acts k = Some True then
           (case map_of ens k of
              None \<Rightarrow> Inl TypeError
            | Some edgeInfo \<Rightarrow> Inr (activeEdges @ [edgeProps k edgeInfo]))
         else Inr activeEdges) (acc @ [edgeProps k info]) ks = Inr es" by simp
      from Cons.IH [OF this Cons.prems(2)] True show ?thesis
        by (auto simp: edge_id_edgeProps)
    qed
  qed
qed

lemma activeEdgesDelete_active:
  "activeEdgesDelete acts ens = Inr es \<Longrightarrow> edge \<in> set es
     \<Longrightarrow> map_of acts (edge_id edge) = Some True"
  unfolding activeEdgesDelete_def by (drule activeEdgesDelete_fold) auto

lemma createEdge_calls:
  assumes "createEdge s ne nodeIndex inputIdx sid tid edgeId = Inr (s', calls)"
  shows "\<exists>allEdgesNodes. calls = [OnEdgesChange (activeEdgesCreate (edgesActives s') allEdgesNodes)]"
  using assms unfolding createEdge_def Let_def
  by (auto split: option.splits)

lemma inputMouseUp_calls:
  assumes "handleOnInputMouseUp s nodeIndex inputIdx = Inr (s', calls)"
  shows "calls = [] \<or>
    (\<exists>allEdgesNodes. calls = [OnEdgesChange (activeEdgesCreate (edgesActives s') allEdgesNodes)])"
  using assms unfolding handleOnInputMouseUp_def Let_def
  by (auto split: option.splits if_splits dest: createEdge_calls)

lemma deleteEdge_calls:
  assumes "handleOnDeleteEdge s edgeId = Inr (s', calls)"
  shows "\<exists>es. calls = [OnEdgesChange es] \<and> activeEdgesDelete (edgesActives s') (edgesNodes s) = Inr es"
  using assms unfolding handleOnDeleteEdge_def Let_def
  by (auto split: option.splits sum.splits)

text \<open>
  C8.  Node deletion does not consult the active-edge map: it reports the host's own edge
  list without the deleted node's edges.  In the mounted demo state the edge between two
  absent nodes is inactive, and deleting node-2 reports it.
\<close>

theorem nodeDelete_reports_inactive_edge:
  "handleOnNodeDelete demoProps demoMounted ''node-2''
     = Inr (demoMounted, [OnEdgesChange [ghostEdge], OnNodesChange [node1, node3]])
   \<and> map_of (edgesActives demoMounted) (edge_id ghostEdge) = Some False"
  by (simp add: handleOnNodeDelete_def demoProps_def demoMounted_def demoState_def
      node1_def node2_def node3_def edge12_def ghostEdge_def)

text \<open>
  C8, as the code has it: every edge in a list that \<open>handleOnInputMouseUp\<close> or
  \<open>handleOnDeleteEdge\<close> passes to \<open>onEdgesChange\<close> is flagged active in the engine's map at the
  time of the call; \<open>handleOnNodeDelete\<close> passes the host's edges that do not touch the
  deleted node, whatever their flags.
\<close>

theorem reported_edges_active:
  "(handleOnInputMouseUp s nodeIndex inputIdx = Inr (afterCreate, callsCreate)
      \<longrightarrow> (\<forall>es edge. OnEdgesChange es \<in> set callsCreate \<and> edge \<in> set es
             \<longrightarrow> map_of (edgesActives afterCreate) (edge_id edge) = Some True))
   \<and> (handleOnDeleteEdge s edgeId = Inr (afterDelete, callsDelete)
      \<longrightarrow> (\<forall>es edge. OnEdgesChange es \<in> set callsDelete \<and> edge \<in> set es
             \<longrightarrow> map_of (edgesActives afterDelete) (edge_id edge) = Some True))
   \<and> handleOnNodeDelete props s nodeId =
        Inr (s, [OnEdgesChange (filter (\<lambda>edge. sourceNode edge \<noteq> nodeId \<and> targetNode edge \<noteq> nodeId)
                                 (edges props)),
                 OnNodesChange (filter (\<lambda>node. node_id node \<noteq> nodeId) (nodes props))])"
proof (intro conjI impI allI)
  fix es edge
  assume h: "handleOnInputMouseUp s nodeIndex inputIdx = Inr (afterCreate, callsCreate)"
    and m: "OnEdgesChange es \<in> set callsCreate \<and> edge \<in> set es"
  from inputMouseUp_calls [OF h] m obtain allEdgesNodes where
    "es = activeEdgesCreate (edgesActives afterCreate) allEdgesNodes" by auto
  with m have "edge \<in> set (activeEdgesCreate (edgesActives afterCreate) allEdgesNodes)" by simp
  then show "map_of (edgesActives afterCreate) (edge_id edge) = Some True"
    by (rule activeEdgesCreate_active)
next
  fix es edge
  assume h: "handleOnDeleteEdge s edgeId = Inr (afterDelete, callsDelete)"
    and m: "OnEdgesChange es \<in> set callsDelete \<and> edge \<in> set es"
  from deleteEdge_calls [OF h] m have "activeEdgesDelete (edgesActives afterDelete) (edgesNodes s) = Inr es"
    by auto
  from activeEdgesDelete_active [OF this] m
  show "map_of (edgesActives afterDelete) (edge_id edge) = Some True" by simp
next
  show "handleOnNodeDelete props s nodeId =
        Inr (s, [OnEdgesChange (filter (\<lambda>edge. sourceNode edge \<noteq> nodeId \<and> targetNode edge \<noteq> nodeId)
                                 (edges props)),
                 OnNodesChange (filter (\<lambda>node. node_id node \<noteq> nodeId) (nodes props))])"
    by (simp add: handleOnNodeDelete_def)
qed

theorem reported_edges_active_witness:
  "\<exists>s1 s2. handleOnInputMouseUp demoDrawing13 2 0 = Inr (s1, [OnEdgesChange [edge12, edge13]])
     \<and> map_of (edgesActives s1) (edge_id edge12) = Some True
     \<and> map_of (edgesActives s1) (edge_id edge13) = Some True
     \<and> handleOnDeleteEdge s1 ''edge_node-1:0_node-2:0'' = Inr (s2, [OnEdgesChange [edge13]])
     \<and> map_of (edgesActives s2) (edge_id edge13) = Some True
     \<and> map_of (edgesActives s2) (edge_id edge12) = Some False"
proof -
  have g: "getEdgeId ''node-1'' 1 ''node-3'' 0 = ''edge_node-1:1_node-3:0''"
    by (simp add: getEdgeId_def show_int_digit digit_char_def)
  obtain s1 where
    u: "handleOnInputMouseUp demoDrawing13 2 0 = Inr (s1, [OnEdgesChange [edge12, edge13]])"
    and n: "edgesNodes s1 = edgesNodes demoMounted @ [(''edge_node-1:1_node-3:0'',
         \<lparr> outNodeId = ''node-1'', outputIndex = 1, inNodeId = ''node-3'', inputIndex = 0 \<rparr>)]"
    and a: "edgesActives s1 = edgesActives demoMounted @ [(''edge_node-1:1_node-3:0'', True)]"
    and d: "nodesData s1 = (nodesData demoMounted)
        [0 := (nodesData demoMounted ! 0)\<lparr> edgesOut := [''edge_node-1:0_node-2:0'', ''edge_node-1:1_node-3:0''] \<rparr>,
         2 := (nodesData demoMounted ! 2)\<lparr> edgesIn := [''edge_node-1:1_node-3:0''] \<rparr>]"
    by (simp add: handleOnInputMouseUp_def createEdge_def activeEdgesCreate_def edgeProps_def
        demoDrawing13_def demoMounted_def demoState_def measured1_def measured3_def
        lookup_def ior0_def g edge12_def edge13_def assign_def Let_def)
  obtain s2 where
    v: "handleOnDeleteEdge s1 ''edge_node-1:0_node-2:0'' = Inr (s2, [OnEdgesChange [edge13]])"
    and b: "edgesActives s2 = [(''edge_node-1:0_node-2:0'', False), (''edge_node-8:0_node-9:0'', False),
         (''edge_node-1:1_node-3:0'', True)]"
    by (simp add: handleOnDeleteEdge_def activeEdgesDelete_def edgeProps_def n a d
        demoMounted_def demoState_def lookup_def edge13_def assign_def Let_def)
  from reported_edges_active [where s = demoDrawing13 and nodeIndex = 2 and inputIdx = 0
        and afterCreate = s1 and callsCreate = "[OnEdgesChange [edge12, edge13]]"]
    reported_edges_active [where s = s1 and edgeId = "''edge_node-1:0_node-2:0''"
        and afterDelete = s2 and callsDelete = "[OnEdgesChange [edge13]]"] u v
  have "map_of (edgesActives s1) (edge_id edge12) = Some True"
    "map_of (edgesActives s1) (edge_id edge13) = Some True"
    "map_of (edgesActives s2) (edge_id edge13) = Some True"
    by auto
  moreover from b have "map_of (edgesActives s2) (edge_id edge12) = Some False"
    by (simp add: edge12_def)
  ultimately show ?thesis using u v by blast
qed

end
